theory Spec2Isabelle
  imports Complex_Main "HOL-Library.Sublist" "HOL-Library.Log_Nat"
begin

section \<open>Dashboard overview: data model\<close>

text \<open>
  Shallow embedding of \<^verbatim>\<open>src/pages/DashboardOverview.tsx\<close>. The record types
  \<^verbatim>\<open>Kurse\<close> and \<^verbatim>\<open>Anmeldungen\<close> come from \<^verbatim>\<open>@/types/app\<close>; they are
  modelled with the fields the page reads. An optional field (\<^verbatim>\<open>undefined\<close> when absent)
  is an \<open>option\<close>. The price is only formatted for display; it is kept as an exact
  rational.
\<close>

record KurseFields =
  titel :: "string option"
  startdatum :: "string option"
  status :: "string option"
  preis :: "rat option"

record Kurse =
  k_record_id :: string
  k_fields :: KurseFields

record AnmeldungenFields =
  bezahlt :: "bool option"

record Anmeldungen =
  a_record_id :: string
  a_fields :: AnmeldungenFields

text \<open>One entry of the chart data: \<^verbatim>\<open>{ name, value }\<close>.\<close>

record StatusDatum =
  d_name :: string
  d_value :: nat

section \<open>Counts by status\<close>

text \<open>
  The page counts courses four times with the same expression,
  \<^verbatim>\<open>kurse.filter(k => k.fields.status === s).length\<close>, for the four literals
  \<^verbatim>\<open>'aktiv'\<close>, \<^verbatim>\<open>'geplant'\<close>, \<^verbatim>\<open>'abgeschlossen'\<close> and \<^verbatim>\<open>'abgesagt'\<close>.
  Strict equality of an optional string with a literal holds only for a present,
  identical string.
\<close>

definition countByStatus :: "string \<Rightarrow> Kurse list \<Rightarrow> nat" where
  "countByStatus s kurse = length (filter (\<lambda>k. status (k_fields k) = Some s) kurse)"

definition aktiveKurse :: "Kurse list \<Rightarrow> nat" where
  "aktiveKurse kurse = countByStatus ''aktiv'' kurse"

definition geplanteKurse :: "Kurse list \<Rightarrow> nat" where
  "geplanteKurse kurse = countByStatus ''geplant'' kurse"

definition knownStatuses :: "string list" where
  "knownStatuses = [''geplant'', ''aktiv'', ''abgeschlossen'', ''abgesagt'']"

section \<open>Status distribution chart\<close>

definition statusData :: "Kurse list \<Rightarrow> StatusDatum list" where
  "statusData kurse =
     filter (\<lambda>d. d_value d > 0)
       [\<lparr>d_name = ''Geplant'', d_value = geplanteKurse kurse\<rparr>,
        \<lparr>d_name = ''Aktiv'', d_value = aktiveKurse kurse\<rparr>,
        \<lparr>d_name = ''Abgeschlossen'', d_value = countByStatus ''abgeschlossen'' kurse\<rparr>,
        \<lparr>d_name = ''Abgesagt'', d_value = countByStatus ''abgesagt'' kurse\<rparr>]"

section \<open>Payment counts\<close>

text \<open>
  \<^verbatim>\<open>a.fields.bezahlt === true\<close> holds only for a present \<^verbatim>\<open>true\<close>;
  \<^verbatim>\<open>!a.fields.bezahlt\<close> holds for \<^verbatim>\<open>false\<close> and for an absent flag.
\<close>

definition bezahltCount :: "Anmeldungen list \<Rightarrow> nat" where
  "bezahltCount anmeldungen =
     length (filter (\<lambda>a. bezahlt (a_fields a) = Some True) anmeldungen)"

definition falsy :: "bool option \<Rightarrow> bool" where
  "falsy b = (case b of None \<Rightarrow> True | Some v \<Rightarrow> \<not> v)"

definition offenCount :: "Anmeldungen list \<Rightarrow> nat" where
  "offenCount anmeldungen = length (filter (\<lambda>a. falsy (bezahlt (a_fields a))) anmeldungen)"

section \<open>Payment rate\<close>

text \<open>
  JavaScript numbers are IEEE 754 binary64 values, and every arithmetic operation returns
  the exact result rounded to the nearest representable value, ties to the even
  significand. The values met here are quotients of two array lengths (below \<open>2 ^ 32\<close>)
  and their products with 100: they are zero or lie between \<open>2 ^ - 32\<close> and 100, far from
  overflow and from the subnormal range, so a number is modelled as the rational it
  denotes and the rounding keeps 53 significant bits with an unbounded exponent.
  \<open>floorLog2 x\<close> is the binary exponent of a positive \<open>x\<close>.
\<close>

definition pow2 :: "int \<Rightarrow> rat" where
  "pow2 e = (if 0 \<le> e then 2 ^ nat e else 1 / 2 ^ nat (- e))"












section \<open>Upcoming courses\<close>

text \<open>
  \<^verbatim>\<open>parseISO\<close>, \<^verbatim>\<open>isAfter\<close> and \<^verbatim>\<open>startOfToday\<close> come from the date library and
  \<^verbatim>\<open>localeCompare\<close> from the platform. A date is its time value, or \<open>None\<close> for an
  invalid date; \<^verbatim>\<open>parseISO\<close> returns an invalid date for a string it cannot parse, and
  \<^verbatim>\<open>isAfter\<close> compares time values, so it is false when either date is invalid.
  \<^verbatim>\<open>parseISO\<close>, \<^verbatim>\<open>localeCompare\<close> and the value of \<^verbatim>\<open>startOfToday()\<close> are parameters.
\<close>

type_synonym jsdate = "int option"

definition isAfter :: "jsdate \<Rightarrow> jsdate \<Rightarrow> bool" where
  "isAfter date dateToCompare =
     (case date of None \<Rightarrow> False
      | Some a \<Rightarrow> (case dateToCompare of None \<Rightarrow> False | Some b \<Rightarrow> b < a))"

text \<open>
  The filter callback. \<^verbatim>\<open>!k.fields.startdatum\<close> holds for an absent and for an empty
  string.
\<close>

definition upcomingFilter :: "(string \<Rightarrow> jsdate) \<Rightarrow> int \<Rightarrow> Kurse \<Rightarrow> bool" where
  "upcomingFilter parseISO today k =
     (case startdatum (k_fields k) of
        None \<Rightarrow> False
      | Some s \<Rightarrow>
          if s = [] then False
          else isAfter (parseISO s) (Some today) \<or> status (k_fields k) = Some ''geplant'')"

text \<open>The sort key \<^verbatim>\<open>a.fields.startdatum ?? ''\<close>.\<close>

definition startKey :: "Kurse \<Rightarrow> string" where
  "startKey k = (case startdatum (k_fields k) of None \<Rightarrow> [] | Some s \<Rightarrow> s)"

text \<open>
  \<^verbatim>\<open>Array.prototype.sort\<close> with a comparison function is a stable sort: \<open>b\<close> moves in
  front of \<open>a\<close> only when the comparison of \<open>a\<close> with \<open>b\<close> is positive. For a consistent
  comparison function the result of a stable sort is unique; it is computed here by
  insertion from the right.
\<close>

fun insertBy :: "('a \<Rightarrow> 'a \<Rightarrow> int) \<Rightarrow> 'a \<Rightarrow> 'a list \<Rightarrow> 'a list" where
  "insertBy c x [] = [x]"
| "insertBy c x (y # ys) = (if c x y \<le> 0 then x # y # ys else y # insertBy c x ys)"

fun sortBy :: "('a \<Rightarrow> 'a \<Rightarrow> int) \<Rightarrow> 'a list \<Rightarrow> 'a list" where
  "sortBy c [] = []"
| "sortBy c (x # xs) = insertBy c x (sortBy c xs)"


definition startCompare :: "(string \<Rightarrow> string \<Rightarrow> int) \<Rightarrow> Kurse \<Rightarrow> Kurse \<Rightarrow> int" where
  "startCompare localeCompare a b = localeCompare (startKey a) (startKey b)"

definition upcomingKurse ::
  "(string \<Rightarrow> jsdate) \<Rightarrow> (string \<Rightarrow> string \<Rightarrow> int) \<Rightarrow> int \<Rightarrow> Kurse list \<Rightarrow> Kurse list" where
  "upcomingKurse parseISO localeCompare today kurse =
     take 5 (sortBy (startCompare localeCompare) (filter (upcomingFilter parseISO today) kurse))"

section \<open>Rendering the upcoming courses\<close>

text \<open>
  Each selected course becomes one row. The date of a row is
  \<^verbatim>\<open>k.fields.startdatum ? format(parseISO(k.fields.startdatum), 'dd. MMMM yyyy', { locale: de }) : dash\<close>.
  \<^verbatim>\<open>format\<close> of the date library throws a \<^verbatim>\<open>RangeError\<close> when its date is
  invalid; the text it gives for a valid date under this pattern and locale is a
  parameter. A throw while rendering aborts the rendering of the whole page. The price is
  carried as the number (its text with two decimals is not modelled), and the status is
  handed to the badge when it is a non-empty string.
\<close>

datatype jsError = RangeError

definition dash :: string where
  "dash = [CHR 0xE2, CHR 0x80, CHR 0x94]"

definition formatDate :: "(int \<Rightarrow> string) \<Rightarrow> jsdate \<Rightarrow> jsError + string" where
  "formatDate fmt date = (case date of None \<Rightarrow> Inl RangeError | Some t \<Rightarrow> Inr (fmt t))"

record UpcomingRow =
  r_key :: string
  r_titel :: string
  r_datum :: string
  r_preis :: "rat option"
  r_status :: "string option"

definition truthy :: "string option \<Rightarrow> bool" where
  "truthy s = (case s of None \<Rightarrow> False | Some v \<Rightarrow> v \<noteq> [])"

definition renderRow :: "(string \<Rightarrow> jsdate) \<Rightarrow> (int \<Rightarrow> string) \<Rightarrow> Kurse \<Rightarrow> jsError + UpcomingRow" where
  "renderRow parseISO fmt k =
     (case (case startdatum (k_fields k) of
              None \<Rightarrow> Inr dash
            | Some s \<Rightarrow> if s = [] then Inr dash else formatDate fmt (parseISO s)) of
        Inl e \<Rightarrow> Inl e
      | Inr d \<Rightarrow>
          Inr \<lparr>r_key = k_record_id k,
               r_titel = (case titel (k_fields k) of None \<Rightarrow> dash | Some t \<Rightarrow> t),
               r_datum = d,
               r_preis = preis (k_fields k),
               r_status = (if truthy (status (k_fields k)) then status (k_fields k) else None)\<rparr>)"

text \<open>\<^verbatim>\<open>upcomingKurse.map(k => ...)\<close>: the first throw ends the map.\<close>

fun renderRows :: "(string \<Rightarrow> jsdate) \<Rightarrow> (int \<Rightarrow> string) \<Rightarrow> Kurse list \<Rightarrow> jsError + UpcomingRow list" where
  "renderRows parseISO fmt [] = Inr []"
| "renderRows parseISO fmt (k # ks) =
     (case renderRow parseISO fmt k of
        Inl e \<Rightarrow> Inl e
      | Inr r \<Rightarrow> (case renderRows parseISO fmt ks of Inl e \<Rightarrow> Inl e | Inr rs \<Rightarrow> Inr (r # rs)))"

definition renderUpcoming ::
  "(string \<Rightarrow> jsdate) \<Rightarrow> (int \<Rightarrow> string) \<Rightarrow> (string \<Rightarrow> string \<Rightarrow> int) \<Rightarrow> int \<Rightarrow> Kurse list
   \<Rightarrow> jsError + UpcomingRow list" where
  "renderUpcoming parseISO fmt localeCompare today kurse =
     renderRows parseISO fmt (upcomingKurse parseISO localeCompare today kurse)"

section \<open>Loading\<close>

text \<open>
  The component state, one field per \<^verbatim>\<open>useState\<close>. The console is the list of the
  \<^verbatim>\<open>console.error\<close> calls made so far, each with its message and the value caught.
\<close>

record DashboardState =
  dozentenCount :: nat
  teilnehmerCount :: nat
  raeumeCount :: nat
  kurse :: "Kurse list"
  anmeldungen :: "Anmeldungen list"
  loading :: bool

definition initialState :: DashboardState where
  "initialState =
     \<lparr>dozentenCount = 0, teilnehmerCount = 0, raeumeCount = 0, kurse = [], anmeldungen = [],
      loading = True\<rparr>"

text \<open>
  A fetch settles with a rejection (\<open>Inl\<close>) or with the list of records (\<open>Inr\<close>).
  \<^verbatim>\<open>Promise.all\<close> fulfils with all five lists when every fetch fulfils and rejects as
  soon as one fetch rejects; which rejection it carries when several fetches reject
  depends on their timing, and the one of the first rejected fetch in the array is taken
  here.
\<close>

definition promiseAll ::
  "'e + 'd list \<Rightarrow> 'e + 't list \<Rightarrow> 'e + 'r list \<Rightarrow> 'e + Kurse list \<Rightarrow> 'e + Anmeldungen list
   \<Rightarrow> 'e + ('d list \<times> 't list \<times> 'r list \<times> Kurse list \<times> Anmeldungen list)" where
  "promiseAll doz teil raeum kurs anm =
     (case doz of Inl e \<Rightarrow> Inl e | Inr d \<Rightarrow>
      (case teil of Inl e \<Rightarrow> Inl e | Inr t \<Rightarrow>
       (case raeum of Inl e \<Rightarrow> Inl e | Inr r \<Rightarrow>
        (case kurs of Inl e \<Rightarrow> Inl e | Inr k \<Rightarrow>
         (case anm of Inl e \<Rightarrow> Inl e | Inr a \<Rightarrow> Inr (d, t, r, k, a))))))"

text \<open>
  \<^verbatim>\<open>loadStats\<close>: the five setters run only after \<^verbatim>\<open>Promise.all\<close> has fulfilled, the
  \<^verbatim>\<open>catch\<close> block logs, and the \<^verbatim>\<open>finally\<close> block clears the loading flag on both
  paths.
\<close>

definition loadStats ::
  "'e + 'd list \<Rightarrow> 'e + 't list \<Rightarrow> 'e + 'r list \<Rightarrow> 'e + Kurse list \<Rightarrow> 'e + Anmeldungen list
   \<Rightarrow> DashboardState \<times> (string \<times> 'e) list \<Rightarrow> DashboardState \<times> (string \<times> 'e) list" where
  "loadStats doz teil raeum kurs anm w =
     (let (s, console) = w;
          (s1, console1) =
            (case promiseAll doz teil raeum kurs anm of
               Inr (d, t, r, k, a) \<Rightarrow>
                 (s\<lparr>dozentenCount := length d, teilnehmerCount := length t,
                    raeumeCount := length r, kurse := k, anmeldungen := a\<rparr>, console)
             | Inl e \<Rightarrow> (s, console @ [(''Failed to load stats:'', e)]))
      in (s1\<lparr>loading := False\<rparr>, console1))"

section \<open>Sample data\<close>

definition mkKurs :: "string \<Rightarrow> string option \<Rightarrow> string option \<Rightarrow> Kurse" where
  "mkKurs i d s =
     \<lparr>k_record_id = i, k_fields = \<lparr>titel = None, startdatum = d, status = s, preis = None\<rparr>\<rparr>"

definition mkAnmeldung :: "string \<Rightarrow> bool option \<Rightarrow> Anmeldungen" where
  "mkAnmeldung i b = \<lparr>a_record_id = i, a_fields = \<lparr>bezahlt = b\<rparr>\<rparr>"

definition sampleKurse :: "Kurse list" where
  "sampleKurse =
     [mkKurs ''k1'' (Some ''2024-05-01'') (Some ''aktiv''),
      mkKurs ''k2'' (Some ''2024-07-01'') (Some ''aktiv''),
      mkKurs ''k3'' None (Some ''geplant'')]"

definition sampleAnmeldungen :: "Anmeldungen list" where
  "sampleAnmeldungen =
     [mkAnmeldung ''a1'' (Some True), mkAnmeldung ''a2'' (Some True),
      mkAnmeldung ''a3'' (Some False), mkAnmeldung ''a4'' None]"



definition sampleUngueltig :: "Kurse list" where
  "sampleUngueltig = sampleKurse @ [mkKurs ''k6'' (Some ''2024-13-45'') (Some ''geplant'')]"


text \<open>
  A date parser, a date formatter and a string comparison to run the selection on: the
  parser knows four calendar days (as milliseconds since the epoch) and rejects every
  other string, the formatter gives the German text of these four days, and the
  comparison is the lexicographic one on character codes, which is how calendar strings
  of one format compare.
\<close>

definition sampleParseISO :: "string \<Rightarrow> jsdate" where
  "sampleParseISO s =
     (if s = ''2024-05-01'' then Some 1714521600000
      else if s = ''2024-06-01'' then Some 1717200000000
      else if s = ''2024-07-01'' then Some 1719792000000
      else if s = ''2024-08-15'' then Some 1723680000000
      else None)"

definition sampleFormat :: "int \<Rightarrow> string" where
  "sampleFormat t =
     (if t = 1714521600000 then ''01. Mai 2024''
      else if t = 1717200000000 then ''01. Juni 2024''
      else if t = 1719792000000 then ''01. Juli 2024''
      else if t = 1723680000000 then ''15. August 2024''
      else ''?'')"

fun sampleCompare :: "string \<Rightarrow> string \<Rightarrow> int" where
  "sampleCompare [] [] = 0"
| "sampleCompare [] (y # ys) = - 1"
| "sampleCompare (x # xs) [] = 1"
| "sampleCompare (x # xs) (y # ys) =
     (if (of_char x :: nat) < of_char y then - 1
      else if (of_char y :: nat) < of_char x then 1
      else sampleCompare xs ys)"

section \<open>Properties of the counts\<close>

lemma countByStatus_Nil: "countByStatus s [] = 0"
  by (simp add: countByStatus_def)

lemma countByStatus_Cons:
  "countByStatus s (k # ks) = (if status (k_fields k) = Some s then 1 else 0) + countByStatus s ks"
  by (simp add: countByStatus_def)

lemma countByStatus_append:
  "countByStatus s (xs @ ys) = countByStatus s xs + countByStatus s ys"
  by (simp add: countByStatus_def)

text \<open>
  Claim C3. For every registration list the number of paid registrations (flag exactly
  \<^verbatim>\<open>true\<close>) and the number of outstanding ones add up to the length of the list; an
  absent or false flag is never counted as paid.
\<close>

theorem payment_counts_partition:
  "bezahltCount regs + offenCount regs = length regs
   \<and> bezahltCount regs
       = card {i. i < length regs \<and> bezahlt (a_fields (regs ! i)) = Some True}"
proof
  have compl: "(\<lambda>a. falsy (bezahlt (a_fields a)))
      = (\<lambda>a. \<not> (bezahlt (a_fields a) = Some True))"
    by (auto simp: falsy_def fun_eq_iff split: option.splits)
  show "bezahltCount regs + offenCount regs = length regs"
    unfolding bezahltCount_def offenCount_def compl
    by (rule sum_length_filter_compl)
  show "bezahltCount regs
       = card {i. i < length regs \<and> bezahlt (a_fields (regs ! i)) = Some True}"
    unfolding bezahltCount_def by (rule length_filter_conv_card)
qed

section \<open>Properties of the status distribution\<close>

lemma four_counts_sum:
  "geplanteKurse ks + aktiveKurse ks + countByStatus ''abgeschlossen'' ks
     + countByStatus ''abgesagt'' ks
   = length (filter (\<lambda>k. status (k_fields k) \<in> Some ` set knownStatuses) ks)"
  by (induction ks)
    (auto simp: geplanteKurse_def aktiveKurse_def countByStatus_Cons countByStatus_Nil
      knownStatuses_def)

lemma statusData_sum:
  "sum_list (map d_value (statusData ks))
   = geplanteKurse ks + aktiveKurse ks + countByStatus ''abgeschlossen'' ks
       + countByStatus ''abgesagt'' ks"
  by (simp add: statusData_def)

lemma sample_counts:
  "geplanteKurse sampleKurse = 1" "aktiveKurse sampleKurse = 2"
  "countByStatus ''abgeschlossen'' sampleKurse = 0" "countByStatus ''abgesagt'' sampleKurse = 0"
  by (simp_all add: geplanteKurse_def aktiveKurse_def countByStatus_def sampleKurse_def
      mkKurs_def)

text \<open>
  Claim C9. Each of the four counts is the number of positions of the course list whose
  status is present and identical, character by character, to the status counted; a
  course whose status is absent or is none of the four known strings changes none of
  the four counts.
\<close>

theorem countByStatus_exact:
  "countByStatus s ks = card {i. i < length ks \<and> status (k_fields (ks ! i)) = Some s}
   \<and> aktiveKurse ks = card {i. i < length ks \<and> status (k_fields (ks ! i)) = Some ''aktiv''}
   \<and> geplanteKurse ks
       = card {i. i < length ks \<and> status (k_fields (ks ! i)) = Some ''geplant''}
   \<and> (status (k_fields k) \<notin> Some ` set knownStatuses
        \<longrightarrow> (\<forall>t \<in> set knownStatuses.
               countByStatus t (xs @ k # ys) = countByStatus t (xs @ ys)))"
proof (intro conjI impI ballI)
  show "countByStatus s ks = card {i. i < length ks \<and> status (k_fields (ks ! i)) = Some s}"
    for s
    unfolding countByStatus_def by (rule length_filter_conv_card)
  then show
    "aktiveKurse ks = card {i. i < length ks \<and> status (k_fields (ks ! i)) = Some ''aktiv''}"
    "geplanteKurse ks = card {i. i < length ks \<and> status (k_fields (ks ! i)) = Some ''geplant''}"
    by (simp_all add: aktiveKurse_def geplanteKurse_def)
next
  fix t
  assume "status (k_fields k) \<notin> Some ` set knownStatuses" and "t \<in> set knownStatuses"
  then have "status (k_fields k) \<noteq> Some t" by blast
  then show "countByStatus t (xs @ k # ys) = countByStatus t (xs @ ys)"
    by (simp add: countByStatus_append countByStatus_Cons)
qed

theorem countByStatus_exact_witness:
  "status (k_fields (mkKurs ''k4'' None (Some ''Aktiv''))) \<notin> Some ` set knownStatuses
   \<and> countByStatus ''aktiv'' (sampleKurse @ mkKurs ''k4'' None (Some ''Aktiv'') # []) = 2
   \<and> countByStatus ''geplant'' (sampleKurse @ mkKurs ''k4'' None (Some ''Aktiv'') # []) = 1
   \<and> aktiveKurse sampleKurse
       = card {i. i < length sampleKurse
                 \<and> status (k_fields (sampleKurse ! i)) = Some ''aktiv''}"
proof -
  have unknown:
    "status (k_fields (mkKurs ''k4'' None (Some ''Aktiv''))) \<notin> Some ` set knownStatuses"
    by (simp add: mkKurs_def knownStatuses_def)
  have known: "''aktiv'' \<in> set knownStatuses" "''geplant'' \<in> set knownStatuses"
    by (simp_all add: knownStatuses_def)
  note inst = countByStatus_exact
    [of "''aktiv''" sampleKurse "mkKurs ''k4'' None (Some ''Aktiv'')" sampleKurse "[]"]
  from inst unknown known
  have "countByStatus ''aktiv'' (sampleKurse @ mkKurs ''k4'' None (Some ''Aktiv'') # [])
          = countByStatus ''aktiv'' (sampleKurse @ [])"
    and "countByStatus ''geplant'' (sampleKurse @ mkKurs ''k4'' None (Some ''Aktiv'') # [])
          = countByStatus ''geplant'' (sampleKurse @ [])"
    by blast+
  moreover have "countByStatus ''aktiv'' (sampleKurse @ []) = 2"
    "countByStatus ''geplant'' (sampleKurse @ []) = 1"
    using sample_counts by (simp_all add: geplanteKurse_def aktiveKurse_def)
  ultimately show ?thesis using unknown inst by simp
qed

text \<open>
  Claim C5. The chart data has no entry with value 0, its labels are a subsequence of
  Geplant, Aktiv, Abgeschlossen, Abgesagt (the display labels of planned, active,
  completed, cancelled, in that order), and it is empty when all four counts are zero.
\<close>

theorem statusData_shape:
  "(\<forall>d \<in> set (statusData ks). d_value d \<noteq> 0)
   \<and> subseq (map d_name (statusData ks)) [''Geplant'', ''Aktiv'', ''Abgeschlossen'', ''Abgesagt'']
   \<and> (geplanteKurse ks = 0 \<and> aktiveKurse ks = 0 \<and> countByStatus ''abgeschlossen'' ks = 0
        \<and> countByStatus ''abgesagt'' ks = 0 \<longrightarrow> statusData ks = [])"
proof (intro conjI)
  show "\<forall>d \<in> set (statusData ks). d_value d \<noteq> 0"
    by (auto simp: statusData_def)
  have "subseq (map d_name (statusData ks))
     (map d_name
       [\<lparr>d_name = ''Geplant'', d_value = geplanteKurse ks\<rparr>,
        \<lparr>d_name = ''Aktiv'', d_value = aktiveKurse ks\<rparr>,
        \<lparr>d_name = ''Abgeschlossen'', d_value = countByStatus ''abgeschlossen'' ks\<rparr>,
        \<lparr>d_name = ''Abgesagt'', d_value = countByStatus ''abgesagt'' ks\<rparr>])"
    unfolding statusData_def by (rule subseq_map) (rule subseq_filter_left)
  then show "subseq (map d_name (statusData ks))
      [''Geplant'', ''Aktiv'', ''Abgeschlossen'', ''Abgesagt'']"
    by simp
  show "geplanteKurse ks = 0 \<and> aktiveKurse ks = 0 \<and> countByStatus ''abgeschlossen'' ks = 0
        \<and> countByStatus ''abgesagt'' ks = 0 \<longrightarrow> statusData ks = []"
    by (simp add: statusData_def)
qed

theorem statusData_shape_witness:
  "statusData sampleKurse
     = [\<lparr>d_name = ''Geplant'', d_value = 1\<rparr>, \<lparr>d_name = ''Aktiv'', d_value = 2\<rparr>]
   \<and> 0 \<notin> d_value ` set (statusData sampleKurse)
   \<and> subseq (map d_name (statusData sampleKurse))
        [''Geplant'', ''Aktiv'', ''Abgeschlossen'', ''Abgesagt'']
   \<and> geplanteKurse [] = 0 \<and> aktiveKurse [] = 0 \<and> countByStatus ''abgeschlossen'' [] = 0
   \<and> countByStatus ''abgesagt'' [] = 0 \<and> statusData [] = []"
proof -
  have empty: "geplanteKurse [] = 0" "aktiveKurse [] = 0"
    "countByStatus ''abgeschlossen'' [] = 0" "countByStatus ''abgesagt'' [] = 0"
    by (simp_all add: geplanteKurse_def aktiveKurse_def countByStatus_Nil)
  have val: "statusData sampleKurse
     = [\<lparr>d_name = ''Geplant'', d_value = 1\<rparr>, \<lparr>d_name = ''Aktiv'', d_value = 2\<rparr>]"
    by (simp add: statusData_def sample_counts)
  from statusData_shape [of sampleKurse] have "0 \<notin> d_value ` set (statusData sampleKurse)"
    and "subseq (map d_name (statusData sampleKurse))
        [''Geplant'', ''Aktiv'', ''Abgeschlossen'', ''Abgesagt'']"
    by auto
  moreover from statusData_shape [of "[]"] empty have "statusData [] = []"
    by blast
  ultimately show ?thesis using empty val by simp
qed

text \<open>
  Claim C6. The values of the chart data add up to at most the number of courses, and to
  exactly that number if and only if every course has one of the four known statuses.
\<close>

theorem statusData_total:
  "sum_list (map d_value (statusData ks)) \<le> length ks
   \<and> (sum_list (map d_value (statusData ks)) = length ks
        \<longleftrightarrow> (\<forall>k \<in> set ks. status (k_fields k) \<in> Some ` set knownStatuses))"
  unfolding statusData_sum four_counts_sum
  by (metis (mono_tags, lifting) filter_id_conv length_filter_le length_filter_less nat_less_le)

theorem statusData_total_witness:
  "sum_list (map d_value (statusData sampleKurse)) = 3 \<and> length sampleKurse = 3
   \<and> status ` k_fields ` set sampleKurse \<subseteq> Some ` set knownStatuses
   \<and> sum_list (map d_value (statusData (mkKurs ''k5'' None None # sampleKurse))) = 3
   \<and> length (mkKurs ''k5'' None None # sampleKurse) = 4"
proof -
  have len: "length sampleKurse = 3" by (simp add: sampleKurse_def)
  have all: "\<forall>k \<in> set sampleKurse. status (k_fields k) \<in> Some ` set knownStatuses"
    by (simp add: sampleKurse_def mkKurs_def knownStatuses_def)
  with statusData_total [of sampleKurse] len
  have s3: "sum_list (map d_value (statusData sampleKurse)) = 3" by simp
  have "status (k_fields (mkKurs ''k5'' None None)) \<notin> Some ` set knownStatuses"
    by (simp add: mkKurs_def)
  with statusData_total [of "mkKurs ''k5'' None None # sampleKurse"] len
  have "sum_list (map d_value (statusData (mkKurs ''k5'' None None # sampleKurse))) < 4"
    by auto
  moreover have "sum_list (map d_value (statusData (mkKurs ''k5'' None None # sampleKurse)))
      = sum_list (map d_value (statusData sampleKurse))"
    unfolding statusData_sum four_counts_sum by (simp add: mkKurs_def)
  ultimately show ?thesis using s3 len all by auto
qed

section \<open>Properties of loading\<close>

lemma promiseAll_rejects:
  "isl doz \<or> isl teil \<or> isl raeum \<or> isl kurs \<or> isl anm
   \<Longrightarrow> \<exists>e. promiseAll doz teil raeum kurs anm = Inl e"
  by (auto simp: promiseAll_def split: sum.splits)

lemma promiseAll_fulfils:
  "promiseAll (Inr d) (Inr t) (Inr r) (Inr k) (Inr a) = Inr (d, t, r, k, a)"
  by (simp add: promiseAll_def)

lemma loadStats_rejected:
  "promiseAll doz teil raeum kurs anm = Inl e
   \<Longrightarrow> loadStats doz teil raeum kurs anm (s, console)
       = (s\<lparr>loading := False\<rparr>, console @ [(''Failed to load stats:'', e)])"
  by (simp add: loadStats_def)

lemma loadStats_fulfilled:
  "loadStats (Inr d) (Inr t) (Inr r) (Inr k) (Inr a) (s, console)
   = (s\<lparr>dozentenCount := length d, teilnehmerCount := length t, raeumeCount := length r,
        kurse := k, anmeldungen := a, loading := False\<rparr>, console)"
  by (simp add: loadStats_def promiseAll_fulfils)

text \<open>
  Claim C2, as stated, fails: the component has no failed state. After a failed first
  load (here the participants fetch is rejected while the other four deliver records) the
  component state is the very state a successful load of five empty collections leaves.
\<close>

theorem loadStats_failure_not_distinct:
  "fst (loadStats (Inr [()]) (Inl ''timeout'') (Inr [()]) (Inr sampleKurse)
          (Inr sampleAnmeldungen) (initialState, []))
   = fst (loadStats (Inr ([] :: unit list)) (Inr ([] :: unit list)) (Inr ([] :: unit list))
          (Inr []) (Inr []) (initialState, ([] :: (string \<times> string) list)))"
  by (simp add: loadStats_def promiseAll_def initialState_def)

text \<open>
  Claim C2, amended. If any one of the five fetches fails, the load logs exactly one
  failure to the console, populates none of the five data fields and leaves the data held
  before untouched: the only change of the state is the loading flag becoming false. The
  state carries no mark of the failure; it is the state that a successful load delivering
  the data already held would leave.
\<close>

theorem loadStats_failure:
  assumes "isl doz \<or> isl teil \<or> isl raeum \<or> isl kurs \<or> isl anm"
  shows "(\<exists>e. loadStats doz teil raeum kurs anm (s, console)
            = (s\<lparr>loading := False\<rparr>, console @ [(''Failed to load stats:'', e)]))
    \<and> fst (loadStats doz teil raeum kurs anm (s, console))
        = fst (loadStats (Inr (replicate (dozentenCount s) ()))
                (Inr (replicate (teilnehmerCount s) ())) (Inr (replicate (raeumeCount s) ()))
                (Inr (kurse s)) (Inr (anmeldungen s)) (s, console))"
proof -
  from promiseAll_rejects [OF assms] obtain e
    where e: "promiseAll doz teil raeum kurs anm = Inl e" by blast
  show ?thesis
    by (simp add: loadStats_rejected [OF e] loadStats_fulfilled)
qed

theorem loadStats_failure_witness:
  "isl (Inl ''timeout'' :: string + unit list)
   \<and> loadStats (Inr [()]) (Inl ''timeout'') (Inr [()]) (Inr sampleKurse)
        (Inr sampleAnmeldungen) (initialState, [])
      = (initialState\<lparr>loading := False\<rparr>, [(''Failed to load stats:'', ''timeout'')])"
proof -
  have rej: "isl (Inl ''timeout'' :: string + unit list)" by simp
  have pa: "promiseAll (Inr [()]) (Inl ''timeout'') (Inr [()]) (Inr sampleKurse)
          (Inr sampleAnmeldungen) = Inl ''timeout''"
    by (simp add: promiseAll_def)
  from loadStats_failure [of "Inr [()]" "Inl ''timeout''" "Inr [()]" "Inr sampleKurse"
      "Inr sampleAnmeldungen" initialState "[]"] rej
  show ?thesis by (simp add: loadStats_rejected [OF pa])
qed

text \<open>
  Claim C10. When any of the five fetches fails, the three counts and the two collections
  are not modified, so after a failed first load each still has its initial value (zero
  or empty), and the only change of the state is the loading flag becoming false.
\<close>

theorem loadStats_failure_frame:
  assumes "isl doz \<or> isl teil \<or> isl raeum \<or> isl kurs \<or> isl anm"
  shows "fst (loadStats doz teil raeum kurs anm (s, console)) = s\<lparr>loading := False\<rparr>
    \<and> fst (loadStats doz teil raeum kurs anm (initialState, console))
        = \<lparr>dozentenCount = 0, teilnehmerCount = 0, raeumeCount = 0, kurse = [],
           anmeldungen = [], loading = False\<rparr>"
proof -
  from promiseAll_rejects [OF assms] obtain e
    where e: "promiseAll doz teil raeum kurs anm = Inl e" by blast
  show ?thesis
    by (simp add: loadStats_rejected [OF e] initialState_def)
qed

theorem loadStats_failure_frame_witness:
  "isl (Inl ''offline'' :: string + Kurse list)
   \<and> loading initialState
   \<and> fst (loadStats (Inr [(), ()]) (Inr [()]) (Inr [()]) (Inl ''offline'')
          (Inr sampleAnmeldungen) (initialState, []))
      = \<lparr>dozentenCount = 0, teilnehmerCount = 0, raeumeCount = 0, kurse = [],
         anmeldungen = [], loading = False\<rparr>"
proof -
  have rej: "isl (Inl ''offline'' :: string + Kurse list)" by simp
  from loadStats_failure_frame [of "Inr [(), ()]" "Inr [()]" "Inr [()]" "Inl ''offline''"
      "Inr sampleAnmeldungen" initialState "[]"] rej
  show ?thesis by (simp add: initialState_def)
qed

section \<open>Properties of the upcoming selection\<close>

lemma set_insertBy: "set (insertBy c x xs) = insert x (set xs)"
  by (induction xs) auto

lemma set_sortBy: "set (sortBy c xs) = set xs"
  by (induction xs) (auto simp: set_insertBy)

lemma length_insertBy: "length (insertBy c x xs) = Suc (length xs)"
  by (induction xs) auto

lemma length_sortBy: "length (sortBy c xs) = length xs"
  by (induction xs) (auto simp: length_insertBy)









lemma upcomingFilter_iff:
  "upcomingFilter P t k \<longleftrightarrow>
     (\<exists>s. startdatum (k_fields k) = Some s \<and> s \<noteq> []
          \<and> ((\<exists>d. P s = Some d \<and> t < d) \<or> status (k_fields k) = Some ''geplant''))"
  by (auto simp: upcomingFilter_def isAfter_def split: option.splits)

lemma set_upcomingKurse_subset:
  "set (upcomingKurse P c t ks) \<subseteq> {k \<in> set ks. upcomingFilter P t k}"
proof -
  have "set (upcomingKurse P c t ks)
      \<subseteq> set (sortBy (startCompare c) (filter (upcomingFilter P t) ks))"
    unfolding upcomingKurse_def by (rule set_take_subset)
  then show ?thesis by (auto simp: set_sortBy)
qed

lemma set_upcomingKurse_all:
  assumes "length (filter (upcomingFilter P t) ks) \<le> 5"
  shows "set (upcomingKurse P c t ks) = {k \<in> set ks. upcomingFilter P t k}"
proof -
  from assms have "upcomingKurse P c t ks = sortBy (startCompare c) (filter (upcomingFilter P t) ks)"
    unfolding upcomingKurse_def by (simp add: length_sortBy)
  then show ?thesis by (auto simp: set_sortBy)
qed

text \<open>
  Claim C1, amended. The filter keeps a course if and only if it has a non-empty start
  date and either that date parses to a date strictly after today or the status is
  \<^verbatim>\<open>'geplant'\<close>; a course without start date is never selected, whatever its status.
  Every selected course passes the filter, and every course passing it is selected when
  at most five courses pass.
\<close>

theorem upcomingKurse_selection:
  "set (upcomingKurse P c t ks) \<subseteq> {k \<in> set ks. upcomingFilter P t k}
   \<and> (length (filter (upcomingFilter P t) ks) \<le> 5
        \<longrightarrow> set (upcomingKurse P c t ks) = {k \<in> set ks. upcomingFilter P t k})
   \<and> (upcomingFilter P t k \<longleftrightarrow>
        (\<exists>s. startdatum (k_fields k) = Some s \<and> s \<noteq> []
             \<and> ((\<exists>d. P s = Some d \<and> t < d) \<or> status (k_fields k) = Some ''geplant'')))
   \<and> (startdatum (k_fields k) = None \<longrightarrow> k \<notin> set (upcomingKurse P c t ks))"
proof (intro conjI impI)
  show "set (upcomingKurse P c t ks) \<subseteq> {k \<in> set ks. upcomingFilter P t k}"
    by (rule set_upcomingKurse_subset)
  show "set (upcomingKurse P c t ks) = {k \<in> set ks. upcomingFilter P t k}"
    if "length (filter (upcomingFilter P t) ks) \<le> 5"
    using that by (rule set_upcomingKurse_all)
  show "upcomingFilter P t k \<longleftrightarrow>
        (\<exists>s. startdatum (k_fields k) = Some s \<and> s \<noteq> []
             \<and> ((\<exists>d. P s = Some d \<and> t < d) \<or> status (k_fields k) = Some ''geplant''))"
    by (rule upcomingFilter_iff)
  show "k \<notin> set (upcomingKurse P c t ks)" if "startdatum (k_fields k) = None"
  proof
    assume "k \<in> set (upcomingKurse P c t ks)"
    with set_upcomingKurse_subset have "upcomingFilter P t k" by blast
    with that show False by (simp add: upcomingFilter_def)
  qed
qed

lemma sample_upcoming:
  "upcomingKurse sampleParseISO sampleCompare 1717200000000 sampleKurse
   = [mkKurs ''k2'' (Some ''2024-07-01'') (Some ''aktiv'')]"
  by (simp add: upcomingKurse_def sampleKurse_def mkKurs_def upcomingFilter_def
      sampleParseISO_def isAfter_def)

lemma sample_upcoming_filter:
  "filter (upcomingFilter sampleParseISO 1717200000000) sampleKurse
   = [mkKurs ''k2'' (Some ''2024-07-01'') (Some ''aktiv'')]"
  by (simp add: sampleKurse_def mkKurs_def upcomingFilter_def sampleParseISO_def isAfter_def)

text \<open>
  Claim C1, as stated, fails: with today on 2024-06-01, the planned course without start
  date of the sample list is not selected.
\<close>

theorem upcoming_undated_planned_excluded:
  "mkKurs ''k3'' None (Some ''geplant'') \<in> set sampleKurse
   \<and> status (k_fields (mkKurs ''k3'' None (Some ''geplant''))) = Some ''geplant''
   \<and> mkKurs ''k3'' None (Some ''geplant'')
       \<notin> set (upcomingKurse sampleParseISO sampleCompare 1717200000000 sampleKurse)"
  by (simp add: sample_upcoming) (simp add: sampleKurse_def mkKurs_def)

theorem upcomingKurse_selection_witness:
  "length (filter (upcomingFilter sampleParseISO 1717200000000) sampleKurse) \<le> 5
   \<and> set (upcomingKurse sampleParseISO sampleCompare 1717200000000 sampleKurse)
       = {k \<in> set sampleKurse. upcomingFilter sampleParseISO 1717200000000 k}
   \<and> upcomingKurse sampleParseISO sampleCompare 1717200000000 sampleKurse
       = [mkKurs ''k2'' (Some ''2024-07-01'') (Some ''aktiv'')]
   \<and> startdatum (k_fields (mkKurs ''k3'' None (Some ''geplant''))) = None
   \<and> mkKurs ''k3'' None (Some ''geplant'')
       \<notin> set (upcomingKurse sampleParseISO sampleCompare 1717200000000 sampleKurse)"
proof -
  have len: "length (filter (upcomingFilter sampleParseISO 1717200000000) sampleKurse) \<le> 5"
    by (simp add: sample_upcoming_filter)
  have nodate: "startdatum (k_fields (mkKurs ''k3'' None (Some ''geplant''))) = None"
    by (simp add: mkKurs_def)
  from upcomingKurse_selection [of sampleParseISO sampleCompare 1717200000000 sampleKurse
      "mkKurs ''k3'' None (Some ''geplant'')"] len nodate
  show ?thesis by (simp add: sample_upcoming)
qed





lemma renderRow_unparseable:
  assumes "startdatum (k_fields k) = Some s" and "s \<noteq> []" and "parseISO s = None"
  shows "renderRow parseISO fmt k = Inl RangeError"
  using assms by (simp add: renderRow_def formatDate_def)

lemma renderRows_error:
  assumes "k \<in> set ks" and "renderRow parseISO fmt k = Inl RangeError"
  shows "renderRows parseISO fmt ks = Inl RangeError"
  using assms(1)
proof (induction ks)
  case Nil
  then show ?case by simp
next
  case (Cons x xs)
  show ?case
  proof (cases "renderRow parseISO fmt x")
    case (Inl e)
    then show ?thesis by (cases e) simp
  next
    case (Inr r)
    with assms(2) have "k \<noteq> x" by auto
    with Cons.prems have "k \<in> set xs" by simp
    with Cons.IH Inr show ?thesis by simp
  qed
qed

text \<open>
  Claim C8 does not hold of the page. A course whose non-empty start date does not parse
  to a valid date and whose status is \<^verbatim>\<open>'geplant'\<close> is not excluded: it passes the
  filter through its status, and once it is among the selected courses the date of its
  row is formatted from the invalid date, which throws, so no row is rendered at all.
\<close>

theorem render_aborts_on_unparseable:
  assumes "startdatum (k_fields k) = Some s" and "s \<noteq> []" and "parseISO s = None"
    and "status (k_fields k) = Some ''geplant''"
  shows "upcomingFilter parseISO today k
    \<and> (k \<in> set (upcomingKurse parseISO c today ks)
         \<longrightarrow> renderUpcoming parseISO fmt c today ks = Inl RangeError)
    \<and> (k \<in> set ks \<and> length (filter (upcomingFilter parseISO today) ks) \<le> 5
         \<longrightarrow> renderUpcoming parseISO fmt c today ks = Inl RangeError)"
proof -
  have f: "upcomingFilter parseISO today k"
    using assms by (simp add: upcomingFilter_def)
  have row: "renderRow parseISO fmt k = Inl RangeError"
    using assms(1-3) by (rule renderRow_unparseable)
  have a: "renderUpcoming parseISO fmt c today ks = Inl RangeError"
    if "k \<in> set (upcomingKurse parseISO c today ks)"
    unfolding renderUpcoming_def using that row by (rule renderRows_error)
  have b: "renderUpcoming parseISO fmt c today ks = Inl RangeError"
    if "k \<in> set ks \<and> length (filter (upcomingFilter parseISO today) ks) \<le> 5"
  proof -
    from that f have "k \<in> set (upcomingKurse parseISO c today ks)"
      by (simp add: set_upcomingKurse_all)
    then show ?thesis by (rule a)
  qed
  from f a b show ?thesis by blast
qed

lemma sample_ungueltig_upcoming:
  "upcomingKurse sampleParseISO sampleCompare 1717200000000 sampleUngueltig
   = [mkKurs ''k2'' (Some ''2024-07-01'') (Some ''aktiv''),
      mkKurs ''k6'' (Some ''2024-13-45'') (Some ''geplant'')]"
  by (simp add: upcomingKurse_def sampleUngueltig_def sampleKurse_def mkKurs_def
      upcomingFilter_def sampleParseISO_def isAfter_def startCompare_def startKey_def)

lemma sample_render:
  "renderUpcoming sampleParseISO sampleFormat sampleCompare 1717200000000 sampleKurse
   = Inr [\<lparr>r_key = ''k2'', r_titel = dash, r_datum = ''01. Juli 2024'', r_preis = None,
          r_status = Some ''aktiv''\<rparr>]"
  by (simp add: renderUpcoming_def sample_upcoming)
    (simp add: renderRow_def mkKurs_def formatDate_def sampleParseISO_def sampleFormat_def
      truthy_def)

theorem render_aborts_on_unparseable_witness:
  "startdatum (k_fields (mkKurs ''k6'' (Some ''2024-13-45'') (Some ''geplant'')))
     = Some ''2024-13-45''
   \<and> sampleParseISO ''2024-13-45'' = None
   \<and> status (k_fields (mkKurs ''k6'' (Some ''2024-13-45'') (Some ''geplant'')))
       = Some ''geplant''
   \<and> upcomingKurse sampleParseISO sampleCompare 1717200000000 sampleUngueltig
       = [mkKurs ''k2'' (Some ''2024-07-01'') (Some ''aktiv''),
          mkKurs ''k6'' (Some ''2024-13-45'') (Some ''geplant'')]
   \<and> renderUpcoming sampleParseISO sampleFormat sampleCompare 1717200000000 sampleUngueltig
       = Inl RangeError
   \<and> renderUpcoming sampleParseISO sampleFormat sampleCompare 1717200000000 sampleKurse
       = Inr [\<lparr>r_key = ''k2'', r_titel = dash, r_datum = ''01. Juli 2024'', r_preis = None,
              r_status = Some ''aktiv''\<rparr>]"
proof -
  let ?k = "mkKurs ''k6'' (Some ''2024-13-45'') (Some ''geplant'')"
  have d: "startdatum (k_fields ?k) = Some ''2024-13-45''"
    and st: "status (k_fields ?k) = Some ''geplant''"
    by (simp_all add: mkKurs_def)
  have ne: "''2024-13-45'' \<noteq> []" by simp
  have inv: "sampleParseISO ''2024-13-45'' = None" by (simp add: sampleParseISO_def)
  have mem: "?k \<in> set (upcomingKurse sampleParseISO sampleCompare 1717200000000 sampleUngueltig)"
    by (simp add: sample_ungueltig_upcoming)
  from render_aborts_on_unparseable [of ?k "''2024-13-45''" sampleParseISO 1717200000000
      sampleCompare sampleUngueltig sampleFormat, OF d ne inv st] mem
  have "renderUpcoming sampleParseISO sampleFormat sampleCompare 1717200000000 sampleUngueltig
       = Inl RangeError"
    by blast
  with d inv st sample_ungueltig_upcoming sample_render show ?thesis by (intro conjI)
qed

section \<open>Properties of the payment rate\<close>

lemma pow2_powi: "pow2 e = 2 powi e"
  by (simp add: pow2_def power_int_def inverse_eq_divide power_one_over)



lemma pow2_less: "a < b \<Longrightarrow> pow2 a < pow2 b"
  by (simp add: pow2_powi power_int_strict_increasing)



































end
